theory Spec2Isabelle
  imports Complex_Main
begin

section \<open>Data model\<close>

text \<open>
  The module \<^verbatim>\<open>mani_skill2/envs/custom_scenes/put_on_in_scene.py\<close> evaluates, once per
  simulation step, whether a source object has been put on a target object.  A numpy
  array of shape \<^verbatim>\<open>(3,)\<close> is a triple, the slice \<^verbatim>\<open>[:2]\<close> of it is a pair.

  The numbers of the source are numpy floats.  They are modelled as \<^typ>\<open>real\<close> and the
  operations on them as exact, which the operations of the source are not: a difference
  or a norm of the source is rounded, and a comparison with a threshold can come out the
  other way when the two sides are within the rounding of each other.  The theorems
  below are about what does not rest on that: how the flags are combined and stored, the
  counter, the reset, and examples whose numbers are far from the thresholds.  What a
  flag is as a function of the coordinates is not stated.
\<close>

type_synonym vec2 = "real \<times> real"
type_synonym vec3 = "real \<times> real \<times> real"

text \<open>A \<^verbatim>\<open>sapien.Pose\<close>: position \<^verbatim>\<open>p\<close> and orientation quaternion \<^verbatim>\<open>q\<close>.\<close>

record pose =
  pose_p :: vec3
  pose_q :: "real \<times> real \<times> real \<times> real"

text \<open>An actor (or a robot link) of the scene: what the evaluation reads of it.\<close>

record actor =
  name :: string
  pose :: pose

record contact_point =
  impulse :: vec3

record contact =
  actor0 :: actor
  actor1 :: actor
  points :: "contact_point list"

text \<open>
  The \<^verbatim>\<open>OrderedDict\<close> \<^verbatim>\<open>self.episode_stats\<close>: its five keys are fixed by
  \<^verbatim>\<open>_initialize_episode_stats\<close> and \<^verbatim>\<open>evaluate\<close> assigns to no other key.
\<close>

record episode_stats =
  moved_correct_obj :: bool
  moved_wrong_obj :: bool
  is_src_obj_grasped :: bool
  consecutive_grasp :: bool
  src_on_target :: bool

text \<open>
  The two attributes of \<^verbatim>\<open>self\<close> that \<^verbatim>\<open>evaluate\<close> and \<^verbatim>\<open>reset\<close> write: the integer
  \<^verbatim>\<open>self.consecutive_grasp\<close> (a Python integer, unbounded) and \<^verbatim>\<open>self.episode_stats\<close>.
\<close>

record env_state =
  self_consecutive_grasp :: int
  self_episode_stats :: episode_stats

text \<open>
  Everything \<^verbatim>\<open>evaluate\<close> reads and does not write, as it stands at one step.  The
  attributes and properties of the base classes (\<^verbatim>\<open>source_obj_pose\<close>,
  \<^verbatim>\<open>episode_source_obj_xyz_after_settle\<close>, the bounding boxes, ...) and the results of
  the calls into the simulator (\<^verbatim>\<open>self.agent.check_grasp(self.episode_source_obj)\<close>,
  \<^verbatim>\<open>self._scene.get_contacts()\<close>, \<^verbatim>\<open>self.agent.robot.get_links()\<close>) are inputs.
\<close>

record scene =
  source_obj_pose :: pose
  target_obj_pose :: pose
  episode_source_obj_xyz_after_settle :: vec3
  episode_objs :: "actor list"
  episode_obj_xyzs_after_settle :: "vec3 list"
  episode_source_obj :: actor
  episode_target_obj :: actor
  episode_source_obj_bbox_world :: vec3
  episode_target_obj_bbox_world :: vec3
  check_grasp :: bool
  get_contacts :: "contact list"
  get_links :: "actor list"

text \<open>The dictionary \<^verbatim>\<open>evaluate\<close> returns.\<close>

record eval_result =
  ret_moved_correct_obj :: bool
  ret_moved_wrong_obj :: bool
  ret_is_src_obj_grasped :: bool
  ret_consecutive_grasp :: bool
  ret_src_on_target :: bool
  ret_episode_stats :: episode_stats
  ret_success :: bool

section \<open>Vectors\<close>

fun xy :: "vec3 \<Rightarrow> vec2" where
  "xy (x, y, z) = (x, y)"

fun z_of :: "vec3 \<Rightarrow> real" where
  "z_of (x, y, z) = z"

fun sub2 :: "vec2 \<Rightarrow> vec2 \<Rightarrow> vec2" where
  "sub2 (a, b) (c, d) = (a - c, b - d)"

fun sub3 :: "vec3 \<Rightarrow> vec3 \<Rightarrow> vec3" where
  "sub3 (a, b, c) (d, e, f) = (a - d, b - e, c - f)"

fun add3 :: "vec3 \<Rightarrow> vec3 \<Rightarrow> vec3" where
  "add3 (a, b, c) (d, e, f) = (a + d, b + e, c + f)"

fun half3 :: "vec3 \<Rightarrow> vec3" where
  "half3 (a, b, c) = (a / 2, b / 2, c / 2)"

text \<open>\<^verbatim>\<open>np.linalg.norm\<close> of a vector: the Euclidean norm.\<close>

fun linalg_norm2 :: "vec2 \<Rightarrow> real" where
  "linalg_norm2 (x, y) = sqrt (x\<^sup>2 + y\<^sup>2)"

fun linalg_norm3 :: "vec3 \<Rightarrow> real" where
  "linalg_norm3 (x, y, z) = sqrt (x\<^sup>2 + y\<^sup>2 + z\<^sup>2)"

text \<open>
  \<^verbatim>\<open>np.sum(vs, axis=0)\<close> of a list of 3-vectors.  For the empty list numpy returns the
  scalar \<^verbatim>\<open>0.0\<close>, whose norm is 0 as the norm of the zero vector is.
\<close>

fun np_sum :: "vec3 list \<Rightarrow> vec3" where
  "np_sum [] = (0, 0, 0)"
| "np_sum (v # vs) = add3 v (np_sum vs)"

section \<open>Episode reset\<close>

text \<open>\<^verbatim>\<open>PutOnInSceneEnv._initialize_episode_stats\<close> (lines 20 to 27).\<close>

definition initialize_episode_stats :: "env_state \<Rightarrow> env_state" where
  "initialize_episode_stats st =
     st\<lparr>self_episode_stats :=
          \<lparr>moved_correct_obj = False, moved_wrong_obj = False, is_src_obj_grasped = False,
           consecutive_grasp = False, src_on_target = False\<rparr>\<rparr>"

text \<open>
  Modelled from the spec: \<^verbatim>\<open>MoveNearInSceneEnv.reset\<close>, the \<^verbatim>\<open>super().reset\<close> that
  \<^verbatim>\<open>PutOnInSceneEnv.reset\<close> calls, is in \<^verbatim>\<open>move_near_in_scene.py\<close> and its base classes,
  which are not among the sources.  The spec says of the reset that it reinitializes the
  statistics (\<^verbatim>\<open>initialize()\<close> sets all five fields to false) and the counter; the counter
  is set by the caller below, so the part modelled here is the call of
  \<^verbatim>\<open>_initialize_episode_stats\<close>, which leaves the counter as it is.
\<close>

definition super_reset :: "env_state \<Rightarrow> env_state" where
  "super_reset st = initialize_episode_stats st"

text \<open>\<^verbatim>\<open>PutOnInSceneEnv.reset\<close> (lines 16 to 18).\<close>

definition reset :: "env_state \<Rightarrow> env_state" where
  "reset st = super_reset (st\<lparr>self_consecutive_grasp := 0\<rparr>)"

subsection \<open>The configuration chosen by \<^verbatim>\<open>PutOnBridgeInSceneEnv.reset\<close> (lines 135 to 146)\<close>

datatype py_error = ZeroDivisionError | IndexError

definition py_mod :: "int \<Rightarrow> int \<Rightarrow> py_error + int" where
  "py_mod a b = (if b = 0 then Inl ZeroDivisionError else Inr (a mod b))"

definition py_floordiv :: "int \<Rightarrow> int \<Rightarrow> py_error + int" where
  "py_floordiv a b = (if b = 0 then Inl ZeroDivisionError else Inr (a div b))"

text \<open>
  \<^verbatim>\<open>xs[i]\<close> on a Python list: an index from \<^verbatim>\<open>-len(xs)\<close> up to \<^verbatim>\<open>-1\<close> counts from
  the end, and an index outside \<^verbatim>\<open>-len(xs) .. len(xs) - 1\<close> raises.
\<close>

definition py_getitem :: "'a list \<Rightarrow> int \<Rightarrow> py_error + 'a" where
  "py_getitem xs i =
     (if i \<in> {0 ..< int (length xs)} then Inr (xs ! nat i)
      else if i \<in> {- int (length xs) ..< 0} then Inr (xs ! nat (i + int (length xs)))
      else Inl IndexError)"

text \<open>
  \<^verbatim>\<open>options\<close> is \<^verbatim>\<open>None\<close> or a dictionary; what is read of it is the dictionary under
  \<^verbatim>\<open>"obj_init_options"\<close> and there the integer under \<^verbatim>\<open>"episode_id"\<close>, both with a
  default.
\<close>

type_synonym options = "(string \<rightharpoonup> (string \<rightharpoonup> int)) option"

definition episode_id_of :: "options \<Rightarrow> int" where
  "episode_id_of options =
     (let options' = (case options of None \<Rightarrow> Map.empty | Some d \<Rightarrow> d);
          obj_init_options =
            (case options' ''obj_init_options'' of None \<Rightarrow> Map.empty | Some d \<Rightarrow> d)
      in case obj_init_options ''episode_id'' of None \<Rightarrow> 0 | Some e \<Rightarrow> e)"

text \<open>
  The pair \<^verbatim>\<open>(xy_config, quat_config)\<close> that the reset stores under \<^verbatim>\<open>init_xys\<close> and
  \<^verbatim>\<open>init_rot_quats\<close>, or the exception the index arithmetic raises.  The two lists are
  \<^verbatim>\<open>self._xy_configs\<close> and \<^verbatim>\<open>self._quat_configs\<close>; every registered environment passes both.
\<close>

definition bridge_reset_configs :: "'a list \<Rightarrow> 'b list \<Rightarrow> options \<Rightarrow> py_error + ('a \<times> 'b)" where
  "bridge_reset_configs xy_configs quat_configs options =
     (let episode_id = episode_id_of options;
          nx = int (length xy_configs);
          nq = int (length quat_configs)
      in case py_mod episode_id (nx * nq) of
           Inl e \<Rightarrow> Inl e
         | Inr r \<Rightarrow>
             (case py_floordiv r nq of
                Inl e \<Rightarrow> Inl e
              | Inr i \<Rightarrow>
                  (case py_getitem xy_configs i of
                     Inl e \<Rightarrow> Inl e
                   | Inr xy_config \<Rightarrow>
                       (case py_mod episode_id nq of
                          Inl e \<Rightarrow> Inl e
                        | Inr j \<Rightarrow>
                            (case py_getitem quat_configs j of
                               Inl e \<Rightarrow> Inl e
                             | Inr quat_config \<Rightarrow> Inr (xy_config, quat_config))))))"

section \<open>The evaluation step\<close>

subsection \<open>Displacement of the objects (lines 44 to 51)\<close>

text \<open>
  The local variables \<^verbatim>\<open>moved_correct_obj\<close> and \<^verbatim>\<open>moved_wrong_obj\<close> of \<^verbatim>\<open>evaluate\<close> are
  \<open>eval_moved_correct_obj\<close> and \<open>eval_moved_wrong_obj\<close> here: the plain names are the keys
  of \<^verbatim>\<open>episode_stats\<close>.
\<close>

definition source_obj_xy_move_dist :: "scene \<Rightarrow> real" where
  "source_obj_xy_move_dist sc =
     linalg_norm2 (sub2 (xy (episode_source_obj_xyz_after_settle sc)) (xy (pose_p (source_obj_pose sc))))"

text \<open>
  The loop over \<^verbatim>\<open>zip(self.episode_objs, self.episode_obj_xyzs_after_settle)\<close>: it stops
  with the shorter list, skips every object that has the source object's name and
  appends the move distance of each other one.
\<close>

fun other_obj_xy_move_dist :: "string \<Rightarrow> actor list \<Rightarrow> vec3 list \<Rightarrow> real list" where
  "other_obj_xy_move_dist src (obj # objs) (obj_xyz_after_settle # rest) =
     (if name obj = src then other_obj_xy_move_dist src objs rest
      else linalg_norm2 (sub2 (xy obj_xyz_after_settle) (xy (pose_p (pose obj))))
             # other_obj_xy_move_dist src objs rest)"
| "other_obj_xy_move_dist src _ _ = []"

definition other_dists :: "scene \<Rightarrow> real list" where
  "other_dists sc =
     other_obj_xy_move_dist (name (episode_source_obj sc)) (episode_objs sc)
       (episode_obj_xyzs_after_settle sc)"

definition eval_moved_correct_obj :: "scene \<Rightarrow> bool" where
  "eval_moved_correct_obj sc =
     (source_obj_xy_move_dist sc > 0.03 \<and>
      list_all (\<lambda>x. x < source_obj_xy_move_dist sc) (other_dists sc))"

definition eval_moved_wrong_obj :: "scene \<Rightarrow> bool" where
  "eval_moved_wrong_obj sc =
     (list_ex (\<lambda>x. x > 0.03) (other_dists sc) \<and>
      list_ex (\<lambda>x. x > source_obj_xy_move_dist sc) (other_dists sc))"

subsection \<open>The grasp counter (lines 54 to 59)\<close>

definition update_consecutive_grasp :: "bool \<Rightarrow> int \<Rightarrow> int" where
  "update_consecutive_grasp is_grasped c = (if is_grasped then c + 1 else 0)"

definition consecutive_grasp_flag :: "int \<Rightarrow> bool" where
  "consecutive_grasp_flag c = (c \<ge> 5)"

subsection \<open>Placement by the bounding boxes (lines 62 to 72)\<close>

definition tgt_obj_half_length_bbox :: "scene \<Rightarrow> vec3" where
  "tgt_obj_half_length_bbox sc = half3 (episode_target_obj_bbox_world sc)"

definition src_obj_half_length_bbox :: "scene \<Rightarrow> vec3" where
  "src_obj_half_length_bbox sc = half3 (episode_source_obj_bbox_world sc)"

definition offset :: "scene \<Rightarrow> vec3" where
  "offset sc = sub3 (pose_p (source_obj_pose sc)) (pose_p (target_obj_pose sc))"

definition xy_flag :: "scene \<Rightarrow> bool" where
  "xy_flag sc =
     (linalg_norm2 (xy (offset sc)) \<le> linalg_norm2 (xy (tgt_obj_half_length_bbox sc)) - 0.005)"

definition z_flag :: "scene \<Rightarrow> bool" where
  "z_flag sc =
     (z_of (offset sc) > 0 \<and>
      z_of (offset sc) - z_of (tgt_obj_half_length_bbox sc) - z_of (src_obj_half_length_bbox sc)
        \<le> 0.02)"

definition bbox_src_on_target :: "scene \<Rightarrow> bool" where
  "bbox_src_on_target sc = (xy_flag sc \<and> z_flag sc)"

subsection \<open>Placement by the contacts (lines 75 to 93)\<close>

definition ignore_actor_names :: "scene \<Rightarrow> string list" where
  "ignore_actor_names sc = name (episode_target_obj sc) # map name (get_links sc)"

text \<open>
  The name of the other actor of a contact of the source object, \<^verbatim>\<open>None\<close> for a contact
  the source object has no part in.  \<^verbatim>\<open>actor0\<close> is tested first.
\<close>

definition other_obj_contact_actor_name :: "string \<Rightarrow> contact \<Rightarrow> string option" where
  "other_obj_contact_actor_name src c =
     (if name (actor0 c) = src then Some (name (actor1 c))
      else if name (actor1 c) = src then Some (name (actor0 c))
      else None)"

definition contact_impulse :: "contact \<Rightarrow> vec3" where
  "contact_impulse c = np_sum (map impulse (points c))"

text \<open>The test of line 90: this contact sets \<^verbatim>\<open>flag = False\<close> and leaves the loop.\<close>

definition contact_vetoes :: "string \<Rightarrow> string list \<Rightarrow> contact \<Rightarrow> bool" where
  "contact_vetoes src ignored c =
     (case other_obj_contact_actor_name src c of
        None \<Rightarrow> False
      | Some other \<Rightarrow> other \<notin> set ignored \<and> linalg_norm3 (contact_impulse c) > 0.000001)"

text \<open>
  The loop \<^verbatim>\<open>for contact in contacts\<close> with its \<^verbatim>\<open>break\<close>.  It returns \<^verbatim>\<open>flag\<close> and,
  as a ghost value, the number of contacts the loop has looked at.
\<close>

fun contact_loop :: "string \<Rightarrow> string list \<Rightarrow> contact list \<Rightarrow> bool \<times> nat" where
  "contact_loop src ignored [] = (True, 0)"
| "contact_loop src ignored (c # cs) =
     (if contact_vetoes src ignored c then (False, 1)
      else (case contact_loop src ignored cs of (flag, n) \<Rightarrow> (flag, Suc n)))"

definition contact_flag :: "scene \<Rightarrow> bool" where
  "contact_flag sc =
     fst (contact_loop (name (episode_source_obj sc)) (ignore_actor_names sc) (get_contacts sc))"

subsection \<open>\<^verbatim>\<open>PutOnInSceneEnv.evaluate\<close> (lines 39 to 112)\<close>

definition evaluate :: "scene \<Rightarrow> env_state \<Rightarrow> eval_result \<times> env_state" where
  "evaluate sc st =
     (let moved_correct = eval_moved_correct_obj sc;
          moved_wrong = eval_moved_wrong_obj sc;
          is_grasped = check_grasp sc;
          counter = update_consecutive_grasp is_grasped (self_consecutive_grasp st);
          consecutive = consecutive_grasp_flag counter;
          on_target = (bbox_src_on_target sc \<and> contact_flag sc);
          success = on_target;
          old = self_episode_stats st;
          stats = old\<lparr>moved_correct_obj := moved_correct,
                     moved_wrong_obj := moved_wrong,
                     src_on_target := on_target,
                     is_src_obj_grasped := (is_src_obj_grasped old \<or> is_grasped),
                     consecutive_grasp := (consecutive_grasp old \<or> consecutive)\<rparr>
      in (\<lparr>ret_moved_correct_obj = moved_correct,
           ret_moved_wrong_obj = moved_wrong,
           ret_is_src_obj_grasped = is_grasped,
           ret_consecutive_grasp = consecutive,
           ret_src_on_target = on_target,
           ret_episode_stats = stats,
           ret_success = success\<rparr>,
          st\<lparr>self_consecutive_grasp := counter, self_episode_stats := stats\<rparr>))"

text \<open>
  One episode after the other steps: \<^verbatim>\<open>evaluate\<close> is called once per simulation step,
  each call on the state the call before has left.  The result is the state after the
  last step.
\<close>

fun evaluate_steps :: "scene list \<Rightarrow> env_state \<Rightarrow> env_state" where
  "evaluate_steps [] st = st"
| "evaluate_steps (sc # scs) st = evaluate_steps scs (snd (evaluate sc st))"

section \<open>Example scenes\<close>

text \<open>
  A spoon (the source object) and a table cloth (the target object) at rest where they
  have settled, the spoon 20 cm beside the cloth, nothing grasped and nothing in contact.
  The examples below move the objects of this scene.
\<close>

definition at_pos :: "vec3 \<Rightarrow> pose" where
  "at_pos v = \<lparr>pose_p = v, pose_q = (1, 0, 0, 0)\<rparr>"

definition spoon :: actor where
  "spoon = \<lparr>name = ''bridge_spoon_generated_modified'', pose = at_pos (0, 0, 0.01)\<rparr>"

definition cloth :: actor where
  "cloth = \<lparr>name = ''table_cloth_generated'', pose = at_pos (0.2, 0, 0.01)\<rparr>"

definition gripper :: actor where
  "gripper = \<lparr>name = ''gripper_left_finger'', pose = at_pos (0, 0, 0.3)\<rparr>"

definition scene0 :: scene where
  "scene0 =
     \<lparr>source_obj_pose = at_pos (0, 0, 0.01),
      target_obj_pose = at_pos (0.2, 0, 0.01),
      episode_source_obj_xyz_after_settle = (0, 0, 0.01),
      episode_objs = [spoon, cloth],
      episode_obj_xyzs_after_settle = [(0, 0, 0.01), (0.2, 0, 0.01)],
      episode_source_obj = spoon,
      episode_target_obj = cloth,
      episode_source_obj_bbox_world = (0.1, 0.02, 0.02),
      episode_target_obj_bbox_world = (0.2, 0.2, 0.02),
      check_grasp = False,
      get_contacts = [],
      get_links = [gripper]\<rparr>"

definition state0 :: env_state where
  "state0 =
     \<lparr>self_consecutive_grasp = 0,
      self_episode_stats =
        \<lparr>moved_correct_obj = False, moved_wrong_obj = False, is_src_obj_grasped = False,
         consecutive_grasp = False, src_on_target = False\<rparr>\<rparr>"

text \<open>The spoon 5 cm away from where it settled, everything else at rest.\<close>

definition scene_spoon_moved :: scene where
  "scene_spoon_moved = scene0\<lparr>source_obj_pose := at_pos (0.05, 0, 0.01)\<rparr>"

text \<open>The cloth 5 cm away from where it settled, the spoon at rest.\<close>

definition scene_cloth_moved :: scene where
  "scene_cloth_moved =
     scene0\<lparr>episode_objs := [spoon, cloth\<lparr>pose := at_pos (0.25, 0, 0.01)\<rparr>]\<rparr>"

text \<open>The spoon grasped where it lies.\<close>

definition scene_grasp :: scene where
  "scene_grasp = scene0\<lparr>check_grasp := True\<rparr>"

text \<open>A contact of two actors with the impulses of its points.\<close>

definition touch :: "actor \<Rightarrow> actor \<Rightarrow> vec3 list \<Rightarrow> contact" where
  "touch a b impulses = \<lparr>actor0 = a, actor1 = b, points = map (\<lambda>v. \<lparr>impulse = v\<rparr>) impulses\<rparr>"

text \<open>
  The spoon lying on the cloth, 3 cm above the cloth's centre, in contact with the cloth
  alone; and the same over a target only 2 mm wide.
\<close>

definition scene_stacked :: scene where
  "scene_stacked =
     scene0\<lparr>source_obj_pose := at_pos (0.2, 0, 0.04),
            get_contacts := [touch spoon cloth [(0, 0, 0.5)]]\<rparr>"

definition scene_tiny_target :: scene where
  "scene_tiny_target = scene_stacked\<lparr>episode_target_obj_bbox_world := (0.002, 0.002, 0.02)\<rparr>"

text \<open>The options of a reset that give the episode id.\<close>

definition options_of :: "int \<Rightarrow> options" where
  "options_of e = Some [''obj_init_options'' \<mapsto> [''episode_id'' \<mapsto> e]]"

section \<open>What one evaluation step returns and writes\<close>

lemmas scene_defs = scene0_def scene_spoon_moved_def scene_cloth_moved_def scene_grasp_def
  at_pos_def spoon_def cloth_def gripper_def

lemmas move_defs = eval_moved_correct_obj_def eval_moved_wrong_obj_def
  source_obj_xy_move_dist_def other_dists_def

lemma evaluate_counter:
  "self_consecutive_grasp (snd (evaluate sc st)) =
     update_consecutive_grasp (check_grasp sc) (self_consecutive_grasp st)"
  by (simp add: evaluate_def Let_def)

lemma evaluate_stats:
  "self_episode_stats (snd (evaluate sc st)) =
     (self_episode_stats st)\<lparr>moved_correct_obj := eval_moved_correct_obj sc,
        moved_wrong_obj := eval_moved_wrong_obj sc,
        src_on_target := (bbox_src_on_target sc \<and> contact_flag sc),
        is_src_obj_grasped := (is_src_obj_grasped (self_episode_stats st) \<or> check_grasp sc),
        consecutive_grasp := (consecutive_grasp (self_episode_stats st) \<or>
          consecutive_grasp_flag
            (update_consecutive_grasp (check_grasp sc) (self_consecutive_grasp st)))\<rparr>"
  by (simp add: evaluate_def Let_def)

lemma evaluate_result:
  "fst (evaluate sc st) =
     \<lparr>ret_moved_correct_obj = eval_moved_correct_obj sc,
      ret_moved_wrong_obj = eval_moved_wrong_obj sc,
      ret_is_src_obj_grasped = check_grasp sc,
      ret_consecutive_grasp =
        consecutive_grasp_flag
          (update_consecutive_grasp (check_grasp sc) (self_consecutive_grasp st)),
      ret_src_on_target = (bbox_src_on_target sc \<and> contact_flag sc),
      ret_episode_stats = self_episode_stats (snd (evaluate sc st)),
      ret_success = (bbox_src_on_target sc \<and> contact_flag sc)\<rparr>"
  by (simp add: evaluate_def Let_def)

section \<open>The grasp counter\<close>

text \<open>
  After any sequence of steps the counter is the number of steps since the last one
  without a grasp; when every step had a grasp, the steps are added to the start value.
\<close>

lemma evaluate_steps_counter:
  "self_consecutive_grasp (evaluate_steps scs st) =
     (if list_all check_grasp scs then self_consecutive_grasp st + int (length scs)
      else int (length (takeWhile check_grasp (rev scs))))"
proof (induction scs arbitrary: st)
  case Nil
  show ?case by simp
next
  case (Cons sc scs)
  show ?case
    apply (simp add: Cons.IH evaluate_counter update_consecutive_grasp_def)
    apply (auto simp: takeWhile_append list_all_iff)
    done
qed

text \<open>
  C6.  A step with a grasp adds exactly 1 to the counter and a step without sets it to
  exactly 0.  From a counter of 0, after any sequence of steps the counter is the length
  of the run of grasps the sequence ends with, so after k steps that all grasp it is k.
  The flag \<^verbatim>\<open>consecutive_grasp\<close> of a step holds iff the counter, as the step has left
  it, is at least 5; it is false for the counters 0 to 4.
\<close>

theorem grasp_counter:
  "self_consecutive_grasp (snd (evaluate sc st)) =
     (if check_grasp sc then self_consecutive_grasp st + 1 else 0) \<and>
   ret_consecutive_grasp (fst (evaluate sc st)) =
     (5 \<le> self_consecutive_grasp (snd (evaluate sc st))) \<and>
   (self_consecutive_grasp st = 0 \<longrightarrow>
      self_consecutive_grasp (evaluate_steps scs st) =
        int (length (takeWhile check_grasp (rev scs)))) \<and>
   (self_consecutive_grasp st = 0 \<and> list_all check_grasp scs \<longrightarrow>
      self_consecutive_grasp (evaluate_steps scs st) = int (length scs)) \<and>
   (\<forall>c \<in> {0..4}. \<not> consecutive_grasp_flag c)"
  apply (intro conjI)
      apply (simp add: evaluate_counter update_consecutive_grasp_def)
     apply (simp add: evaluate_def Let_def consecutive_grasp_flag_def)
    apply (auto simp: evaluate_steps_counter consecutive_grasp_flag_def list_all_iff
      takeWhile_eq_all_conv[THEN iffD2])
  done

text \<open>
  Three steps that grasp bring the counter from 0 to 3, the flag is still false after
  the first of them, it is true at the fifth, and a step without a grasp brings the
  counter back to 0.
\<close>

theorem grasp_counter_witness:
  "self_consecutive_grasp state0 = 0 \<and>
   list_all check_grasp (replicate 3 (scene0\<lparr>check_grasp := True\<rparr>)) \<and>
   self_consecutive_grasp
     (evaluate_steps (replicate 3 (scene0\<lparr>check_grasp := True\<rparr>)) state0) = 3 \<and>
   \<not> ret_consecutive_grasp (fst (evaluate (scene0\<lparr>check_grasp := True\<rparr>) state0)) \<and>
   ret_consecutive_grasp
     (fst (evaluate (scene0\<lparr>check_grasp := True\<rparr>)
        (evaluate_steps (replicate 4 (scene0\<lparr>check_grasp := True\<rparr>)) state0))) \<and>
   self_consecutive_grasp
     (evaluate_steps [scene0\<lparr>check_grasp := True\<rparr>, scene0] state0) = 0"
  using
    grasp_counter [of "scene0\<lparr>check_grasp := True\<rparr>" state0
      "replicate 3 (scene0\<lparr>check_grasp := True\<rparr>)"]
    grasp_counter [of "scene0\<lparr>check_grasp := True\<rparr>" state0
      "[scene0\<lparr>check_grasp := True\<rparr>, scene0]"]
    grasp_counter [of "scene0\<lparr>check_grasp := True\<rparr>"
      "evaluate_steps (replicate 4 (scene0\<lparr>check_grasp := True\<rparr>)) state0"
      "replicate 4 (scene0\<lparr>check_grasp := True\<rparr>)"]
  by (simp add: state0_def scene0_def list_all_iff evaluate_steps_counter)

section \<open>The episode statistics\<close>

lemma grasped_stays:
  "is_src_obj_grasped (self_episode_stats st) \<Longrightarrow>
   is_src_obj_grasped (self_episode_stats (evaluate_steps scs st))"
  by (induction scs arbitrary: st) (simp_all add: evaluate_stats)

lemma consecutive_stays:
  "consecutive_grasp (self_episode_stats st) \<Longrightarrow>
   consecutive_grasp (self_episode_stats (evaluate_steps scs st))"
  by (induction scs arbitrary: st) (simp_all add: evaluate_stats)

lemma evaluate_steps_append:
  "evaluate_steps (scs @ scs') st = evaluate_steps scs' (evaluate_steps scs st)"
  by (induction scs arbitrary: st) simp_all

lemma spoon_moved_flags:
  "eval_moved_correct_obj scene_spoon_moved" "\<not> eval_moved_wrong_obj scene_spoon_moved"
  by (simp_all add: move_defs scene_defs)

lemma cloth_moved_flags:
  "\<not> eval_moved_correct_obj scene_cloth_moved" "eval_moved_wrong_obj scene_cloth_moved"
  by (simp_all add: move_defs scene_defs)

lemma scene0_flags:
  "\<not> eval_moved_correct_obj scene0" "\<not> eval_moved_wrong_obj scene0"
  by (simp_all add: move_defs scene_defs)

text \<open>
  C1, as the code has it.  Lines 98 and 99 assign the step's values: after every step the
  entries \<^verbatim>\<open>moved_correct_obj\<close> and \<^verbatim>\<open>moved_wrong_obj\<close> of \<^verbatim>\<open>episode_stats\<close> (in the state and
  in the returned dictionary) are the values the step itself has computed, whatever the
  entries were before.
\<close>

theorem stats_moved_overwrite:
  "moved_correct_obj (self_episode_stats (snd (evaluate sc st))) =
     ret_moved_correct_obj (fst (evaluate sc st)) \<and>
   moved_wrong_obj (self_episode_stats (snd (evaluate sc st))) =
     ret_moved_wrong_obj (fst (evaluate sc st)) \<and>
   moved_correct_obj (ret_episode_stats (fst (evaluate sc st))) =
     ret_moved_correct_obj (fst (evaluate sc st)) \<and>
   moved_wrong_obj (ret_episode_stats (fst (evaluate sc st))) =
     ret_moved_wrong_obj (fst (evaluate sc st)) \<and>
   moved_correct_obj (self_episode_stats (evaluate_steps (scs @ [sc]) st)) =
     ret_moved_correct_obj (fst (evaluate sc (evaluate_steps scs st))) \<and>
   moved_wrong_obj (self_episode_stats (evaluate_steps (scs @ [sc]) st)) =
     ret_moved_wrong_obj (fst (evaluate sc (evaluate_steps scs st)))"
  by (simp add: evaluate_stats evaluate_result evaluate_steps_append)

text \<open>
  C1 as stated fails: the spoon is moved by 5 cm and the entry \<^verbatim>\<open>moved_correct_obj\<close> is
  true; at the next step the spoon is back where it settled, and the entry is false.
  The same with the cloth and \<^verbatim>\<open>moved_wrong_obj\<close>.
\<close>

theorem stats_moved_regress:
  "ret_moved_correct_obj (fst (evaluate scene_spoon_moved state0)) \<and>
   moved_correct_obj (self_episode_stats (evaluate_steps [scene_spoon_moved] state0)) \<and>
   \<not> ret_moved_correct_obj (fst (evaluate scene0 (evaluate_steps [scene_spoon_moved] state0))) \<and>
   \<not> moved_correct_obj (self_episode_stats (evaluate_steps [scene_spoon_moved, scene0] state0)) \<and>
   ret_moved_wrong_obj (fst (evaluate scene_cloth_moved state0)) \<and>
   moved_wrong_obj (self_episode_stats (evaluate_steps [scene_cloth_moved] state0)) \<and>
   \<not> ret_moved_wrong_obj (fst (evaluate scene0 (evaluate_steps [scene_cloth_moved] state0))) \<and>
   \<not> moved_wrong_obj (self_episode_stats (evaluate_steps [scene_cloth_moved, scene0] state0))"
  by (simp add: evaluate_stats evaluate_result spoon_moved_flags cloth_moved_flags scene0_flags)

section \<open>The two flags of the displacement\<close>

lemma moved_flags_not_both:
  "\<not> (eval_moved_correct_obj sc \<and> eval_moved_wrong_obj sc)"
proof
  assume both: "eval_moved_correct_obj sc \<and> eval_moved_wrong_obj sc"
  then obtain x where x: "x \<in> set (other_dists sc)" "source_obj_xy_move_dist sc < x"
    by (auto simp: eval_moved_wrong_obj_def list_ex_iff)
  from both x(1) have "x < source_obj_xy_move_dist sc"
    by (simp add: eval_moved_correct_obj_def list_all_iff)
  with x(2) show False by simp
qed

text \<open>
  C5, as the code has it.  The two flags are never both true at one step: the first needs
  every other object to have moved less than the source object, the second needs one that
  has moved more.  Both are false at some step, for example when nothing has moved.
\<close>

theorem moved_flags_exclusive:
  "\<not> (ret_moved_correct_obj (fst (evaluate sc st)) \<and> ret_moved_wrong_obj (fst (evaluate sc st))) \<and>
   (\<exists>sc' st'. \<not> ret_moved_correct_obj (fst (evaluate sc' st')) \<and>
      \<not> ret_moved_wrong_obj (fst (evaluate sc' st')))"
proof -
  have "\<not> ret_moved_correct_obj (fst (evaluate scene0 state0)) \<and>
      \<not> ret_moved_wrong_obj (fst (evaluate scene0 state0))"
    by (simp add: evaluate_result scene0_flags)
  then show ?thesis
    using moved_flags_not_both [of sc] by (auto simp: evaluate_result)
qed

text \<open>
  C5 as stated fails: it asks for an input that makes both flags true and one that makes
  both false, and no input makes both true.
\<close>

theorem moved_flags_never_both:
  "\<not> ((\<exists>sc st. ret_moved_correct_obj (fst (evaluate sc st)) \<and>
          ret_moved_wrong_obj (fst (evaluate sc st))) \<and>
       (\<exists>sc st. \<not> ret_moved_correct_obj (fst (evaluate sc st)) \<and>
          \<not> ret_moved_wrong_obj (fst (evaluate sc st))))"
  using moved_flags_not_both by (simp add: evaluate_result)

section \<open>The flags of the placement\<close>

text \<open>The loop over the contacts leaves \<^verbatim>\<open>flag\<close> true iff no contact of the list vetoes.\<close>

lemma contact_loop_flag:
  "fst (contact_loop src ignored cs) = (\<not> (\<exists>c \<in> set cs. contact_vetoes src ignored c))"
  by (induction cs) (simp_all add: case_prod_beta)

lemmas contact_defs = contact_vetoes_def other_obj_contact_actor_name_def contact_impulse_def
  touch_def spoon_def cloth_def gripper_def at_pos_def

lemma norm2_ge: "c\<^sup>2 \<le> x\<^sup>2 + y\<^sup>2 \<Longrightarrow> c \<le> linalg_norm2 (x, y)"
  by (simp add: real_le_rsqrt)

lemma norm2_less: "0 \<le> c \<Longrightarrow> x\<^sup>2 + y\<^sup>2 < c\<^sup>2 \<Longrightarrow> linalg_norm2 (x, y) < c"
  by (simp add: real_less_lsqrt)

section \<open>Success\<close>

text \<open>
  C7, as the code has it.  The returned \<^verbatim>\<open>success\<close> is the returned \<^verbatim>\<open>src_on_target\<close>, and
  both are the conjunction of the placement test (\<^verbatim>\<open>xy_flag and z_flag\<close>) and the flag of
  the contact filter.  With an xy offset of 0, the source above the target with a vertical
  gap of 0.01, no disqualifying contact, and the xy part of the target's half extent of
  norm at least 0.005, \<^verbatim>\<open>success\<close> is true.
\<close>

theorem success_is_src_on_target:
  "ret_success (fst (evaluate sc st)) = ret_src_on_target (fst (evaluate sc st)) \<and>
   ret_src_on_target (fst (evaluate sc st)) = ((xy_flag sc \<and> z_flag sc) \<and> contact_flag sc) \<and>
   (xy (offset sc) = (0, 0) \<and> 0 < z_of (offset sc) \<and>
    z_of (offset sc) - z_of (tgt_obj_half_length_bbox sc) - z_of (src_obj_half_length_bbox sc)
      = 0.01 \<and>
    0.005 \<le> linalg_norm2 (xy (tgt_obj_half_length_bbox sc)) \<and>
    (\<forall>c \<in> set (get_contacts sc).
       \<not> contact_vetoes (name (episode_source_obj sc)) (ignore_actor_names sc) c) \<longrightarrow>
    ret_success (fst (evaluate sc st)))"
proof -
  have scenario: "(xy_flag sc \<and> z_flag sc) \<and> contact_flag sc"
    if "xy (offset sc) = (0, 0) \<and> 0 < z_of (offset sc) \<and>
      z_of (offset sc) - z_of (tgt_obj_half_length_bbox sc) - z_of (src_obj_half_length_bbox sc)
        = 0.01 \<and>
      0.005 \<le> linalg_norm2 (xy (tgt_obj_half_length_bbox sc)) \<and>
      (\<forall>c \<in> set (get_contacts sc).
         \<not> contact_vetoes (name (episode_source_obj sc)) (ignore_actor_names sc) c)"
    using that by (simp add: xy_flag_def z_flag_def contact_flag_def contact_loop_flag)
  show ?thesis
    using scenario by (simp add: evaluate_result bbox_src_on_target_def)
qed

lemma scene_stacked_geometry:
  "xy (offset scene_stacked) = (0, 0)"
  "z_of (offset scene_stacked) = 0.03"
  "z_of (tgt_obj_half_length_bbox scene_stacked) = 0.01"
  "z_of (src_obj_half_length_bbox scene_stacked) = 0.01"
  "get_contacts scene_stacked = [touch spoon cloth [(0, 0, 0.5)]]"
  "name (episode_source_obj scene_stacked) = name spoon"
  "ignore_actor_names scene_stacked = [name cloth, name gripper]"
  by (simp_all add: scene_stacked_def scene0_def at_pos_def offset_def ignore_actor_names_def
      tgt_obj_half_length_bbox_def src_obj_half_length_bbox_def)

lemma scene_stacked_wide: "0.005 \<le> linalg_norm2 (xy (tgt_obj_half_length_bbox scene_stacked))"
proof -
  have "xy (tgt_obj_half_length_bbox scene_stacked) = (0.1, 0.1)"
    by (simp add: scene_stacked_def scene0_def tgt_obj_half_length_bbox_def)
  moreover have "0.005 \<le> linalg_norm2 (0.1, 0.1)"
    by (rule norm2_ge) (simp add: power2_eq_square)
  ultimately show ?thesis
    by simp
qed

text \<open>
  The spoon 3 cm above the centre of the cloth, both of half height 0.01, touching the
  cloth alone: \<^verbatim>\<open>success\<close> is true.
\<close>

theorem success_is_src_on_target_witness:
  "xy (offset scene_stacked) = (0, 0) \<and>
   z_of (offset scene_stacked) = 0.03 \<and>
   z_of (tgt_obj_half_length_bbox scene_stacked) = 0.01 \<and>
   z_of (src_obj_half_length_bbox scene_stacked) = 0.01 \<and>
   0.005 \<le> linalg_norm2 (xy (tgt_obj_half_length_bbox scene_stacked)) \<and>
   list_all (\<lambda>c. \<not> contact_vetoes (name (episode_source_obj scene_stacked))
        (ignore_actor_names scene_stacked) c) (get_contacts scene_stacked) \<and>
   ret_src_on_target (fst (evaluate scene_stacked state0)) \<and>
   ret_success (fst (evaluate scene_stacked state0))"
proof -
  note inst = success_is_src_on_target [of scene_stacked state0]
  have contacts: "\<forall>c \<in> set (get_contacts scene_stacked).
       \<not> contact_vetoes (name (episode_source_obj scene_stacked))
          (ignore_actor_names scene_stacked) c"
    by (simp add: scene_stacked_geometry contact_defs)
  have gap: "0 < z_of (offset scene_stacked) \<and>
      z_of (offset scene_stacked) - z_of (tgt_obj_half_length_bbox scene_stacked)
        - z_of (src_obj_half_length_bbox scene_stacked) = 0.01"
    by (simp add: scene_stacked_geometry)
  have "ret_success (fst (evaluate scene_stacked state0))"
    using inst contacts gap scene_stacked_geometry(1) scene_stacked_wide by blast
  then show ?thesis
    using inst contacts scene_stacked_geometry scene_stacked_wide
    by (simp add: list_all_iff)
qed

lemma scene_tiny_geometry:
  "xy (offset scene_tiny_target) = (0, 0)"
  "z_of (offset scene_tiny_target) = 0.03"
  "tgt_obj_half_length_bbox scene_tiny_target = (0.001, 0.001, 0.01)"
  "z_of (src_obj_half_length_bbox scene_tiny_target) = 0.01"
  "get_contacts scene_tiny_target = [touch spoon cloth [(0, 0, 0.5)]]"
  "name (episode_source_obj scene_tiny_target) = name spoon"
  "ignore_actor_names scene_tiny_target = [name cloth, name gripper]"
  by (simp_all add: scene_tiny_target_def scene_stacked_def scene0_def at_pos_def offset_def
      ignore_actor_names_def tgt_obj_half_length_bbox_def src_obj_half_length_bbox_def)

lemma scene_tiny_xy_flag: "\<not> xy_flag scene_tiny_target"
proof -
  have "linalg_norm2 (0.001, 0.001) < 0.005"
    by (rule norm2_less) (simp_all add: power2_eq_square)
  then have "linalg_norm2 (xy (tgt_obj_half_length_bbox scene_tiny_target)) < 0.005"
    by (simp add: scene_tiny_geometry)
  moreover have "linalg_norm2 (xy (offset scene_tiny_target)) = 0"
    by (simp add: scene_tiny_geometry)
  ultimately show ?thesis
    by (simp add: xy_flag_def)
qed

text \<open>
  C7 as stated fails in its example: over a target 2 mm wide, with the same offsets, the
  same vertical gap of 0.01 and the same contact, the norm of the target's xy half extent
  is below the margin of 0.005, \<^verbatim>\<open>xy_flag\<close> is false and so is \<^verbatim>\<open>success\<close>.
\<close>

theorem success_fails_on_narrow_target:
  "xy (offset scene_tiny_target) = (0, 0) \<and>
   z_of (offset scene_tiny_target) = 0.03 \<and>
   tgt_obj_half_length_bbox scene_tiny_target = (0.001, 0.001, 0.01) \<and>
   z_of (src_obj_half_length_bbox scene_tiny_target) = 0.01 \<and>
   z_of (offset scene_tiny_target) - z_of (tgt_obj_half_length_bbox scene_tiny_target)
     - z_of (src_obj_half_length_bbox scene_tiny_target) = 0.01 \<and>
   list_all (\<lambda>c. \<not> contact_vetoes (name (episode_source_obj scene_tiny_target))
        (ignore_actor_names scene_tiny_target) c) (get_contacts scene_tiny_target) \<and>
   contact_flag scene_tiny_target \<and>
   \<not> ret_success (fst (evaluate scene_tiny_target state0))"
proof -
  have contacts: "list_all (\<lambda>c. \<not> contact_vetoes (name (episode_source_obj scene_tiny_target))
        (ignore_actor_names scene_tiny_target) c) (get_contacts scene_tiny_target)"
    by (simp add: scene_tiny_geometry contact_defs)
  then have flag: "contact_flag scene_tiny_target"
    by (simp add: contact_flag_def contact_loop_flag list_all_iff)
  have fails: "\<not> ret_success (fst (evaluate scene_tiny_target state0))"
    by (simp add: evaluate_result bbox_src_on_target_def scene_tiny_xy_flag)
  show ?thesis
    using contacts flag fails by (simp add: scene_tiny_geometry)
qed


section \<open>The statistics of grasp and placement\<close>

lemma scene_stacked_on_target: "bbox_src_on_target scene_stacked" "contact_flag scene_stacked"
proof -
  have "linalg_norm2 (xy (offset scene_stacked)) = 0"
    by (simp add: scene_stacked_geometry)
  then have "xy_flag scene_stacked"
    using scene_stacked_wide by (simp add: xy_flag_def)
  moreover have "z_flag scene_stacked"
    by (simp add: z_flag_def scene_stacked_geometry)
  ultimately show "bbox_src_on_target scene_stacked"
    by (simp add: bbox_src_on_target_def)
  show "contact_flag scene_stacked"
    by (simp add: contact_flag_def contact_loop_flag scene_stacked_geometry contact_defs)
qed

lemma scene0_not_on_target: "\<not> bbox_src_on_target scene0"
  by (simp add: bbox_src_on_target_def z_flag_def offset_def scene0_def at_pos_def)

text \<open>
  C8.  A step writes \<^verbatim>\<open>is_src_obj_grasped\<close> and \<^verbatim>\<open>consecutive_grasp\<close> of \<^verbatim>\<open>episode_stats\<close> as
  the old entry or the step's value, so an entry that is true stays true over any further
  steps; it writes \<^verbatim>\<open>src_on_target\<close> as the step's value alone, and there are two steps
  of one episode of which the first makes this entry true and the second makes it false.  The returned dictionary holds the statistics as
  updated.
\<close>

theorem stats_grasp_accumulate:
  "is_src_obj_grasped (self_episode_stats (snd (evaluate sc st))) =
     (is_src_obj_grasped (self_episode_stats st) \<or> ret_is_src_obj_grasped (fst (evaluate sc st))) \<and>
   consecutive_grasp (self_episode_stats (snd (evaluate sc st))) =
     (consecutive_grasp (self_episode_stats st) \<or> ret_consecutive_grasp (fst (evaluate sc st))) \<and>
   src_on_target (self_episode_stats (snd (evaluate sc st))) =
     ret_src_on_target (fst (evaluate sc st)) \<and>
   ret_episode_stats (fst (evaluate sc st)) = self_episode_stats (snd (evaluate sc st)) \<and>
   (is_src_obj_grasped (self_episode_stats st) \<longrightarrow>
      is_src_obj_grasped (self_episode_stats (evaluate_steps scs st))) \<and>
   (consecutive_grasp (self_episode_stats st) \<longrightarrow>
      consecutive_grasp (self_episode_stats (evaluate_steps scs st))) \<and>
   (\<exists>sc1 sc2 st'. src_on_target (self_episode_stats (evaluate_steps [sc1] st')) \<and>
      \<not> src_on_target (self_episode_stats (evaluate_steps [sc1, sc2] st')))"
proof -
  have "src_on_target (self_episode_stats (evaluate_steps [scene_stacked] state0)) \<and>
      \<not> src_on_target (self_episode_stats (evaluate_steps [scene_stacked, scene0] state0))"
    by (simp add: evaluate_stats scene_stacked_on_target scene0_not_on_target)
  then have goes_back: "\<exists>sc1 sc2 st'.
      src_on_target (self_episode_stats (evaluate_steps [sc1] st')) \<and>
      \<not> src_on_target (self_episode_stats (evaluate_steps [sc1, sc2] st'))"
    by blast
  show ?thesis
    using goes_back by (simp add: evaluate_stats evaluate_result grasped_stays consecutive_stays)
qed

lemma check_grasp_scenes: "check_grasp scene_grasp" "\<not> check_grasp scene0"
  by (simp_all add: scene_defs)

lemma grasped_after_5:
  "is_src_obj_grasped (self_episode_stats (evaluate_steps (replicate 5 scene_grasp) state0))"
proof -
  have "replicate 5 scene_grasp = scene_grasp # replicate 4 scene_grasp"
    by (simp add: eval_nat_numeral)
  then show ?thesis
    by (simp add: grasped_stays evaluate_stats check_grasp_scenes)
qed

lemma consecutive_after_5:
  "consecutive_grasp (self_episode_stats (evaluate_steps (replicate 5 scene_grasp) state0))"
proof -
  have "replicate 5 scene_grasp = replicate 4 scene_grasp @ [scene_grasp]"
    by (simp add: eval_nat_numeral)
  then show ?thesis
    by (simp add: evaluate_steps_append evaluate_stats evaluate_steps_counter
        check_grasp_scenes update_consecutive_grasp_def consecutive_grasp_flag_def state0_def)
qed

text \<open>
  Five steps that grasp make both entries true; two steps without a grasp, whose own
  values are false, leave them true.
\<close>

theorem stats_grasp_accumulate_witness:
  "is_src_obj_grasped (self_episode_stats (evaluate_steps (replicate 5 scene_grasp) state0)) \<and>
   is_src_obj_grasped
     (self_episode_stats (evaluate_steps [scene0, scene0] (evaluate_steps (replicate 5 scene_grasp) state0))) \<and>
   consecutive_grasp (self_episode_stats (evaluate_steps (replicate 5 scene_grasp) state0)) \<and>
   consecutive_grasp
     (self_episode_stats (evaluate_steps [scene0, scene0] (evaluate_steps (replicate 5 scene_grasp) state0))) \<and>
   \<not> ret_is_src_obj_grasped (fst (evaluate scene0 (evaluate_steps (replicate 5 scene_grasp) state0))) \<and>
   \<not> ret_consecutive_grasp (fst (evaluate scene0 (evaluate_steps (replicate 5 scene_grasp) state0)))"
proof -
  note inst = stats_grasp_accumulate
    [of scene0 "evaluate_steps (replicate 5 scene_grasp) state0" "[scene0, scene0]"]
  have later: "is_src_obj_grasped
      (self_episode_stats (evaluate_steps [scene0, scene0] (evaluate_steps (replicate 5 scene_grasp) state0)))"
    "consecutive_grasp
      (self_episode_stats (evaluate_steps [scene0, scene0] (evaluate_steps (replicate 5 scene_grasp) state0)))"
    using inst grasped_after_5 consecutive_after_5 by blast+
  have now: "\<not> ret_is_src_obj_grasped (fst (evaluate scene0 (evaluate_steps (replicate 5 scene_grasp) state0)))"
    "\<not> ret_consecutive_grasp (fst (evaluate scene0 (evaluate_steps (replicate 5 scene_grasp) state0)))"
    by (simp_all add: evaluate_result check_grasp_scenes update_consecutive_grasp_def
        consecutive_grasp_flag_def)
  show ?thesis
    using later now grasped_after_5 consecutive_after_5 by blast
qed

section \<open>Reset\<close>

text \<open>
  C9.  After a reset the counter is 0 and the five statistics are false, whatever the
  state before was: two resets from any two states give the same state, so nothing of
  an earlier episode is left.
\<close>

theorem reset_reinitializes:
  "self_consecutive_grasp (reset st) = 0 \<and>
   \<not> moved_correct_obj (self_episode_stats (reset st)) \<and>
   \<not> moved_wrong_obj (self_episode_stats (reset st)) \<and>
   \<not> is_src_obj_grasped (self_episode_stats (reset st)) \<and>
   \<not> consecutive_grasp (self_episode_stats (reset st)) \<and>
   \<not> src_on_target (self_episode_stats (reset st)) \<and>
   reset st = reset (st' :: env_state)"
  by (simp add: reset_def super_reset_def initialize_episode_stats_def)

section \<open>The configuration chosen at reset\<close>

lemma quat_index_range:
  assumes "0 < nq"
  shows "0 \<le> e mod nq \<and> e mod nq < (nq :: int)"
  using assms by simp

lemma div_less_of_less_mult:
  assumes "(a :: int) < nx * nq" "0 < nq"
  shows "a div nq < nx"
proof (rule ccontr)
  assume "\<not> a div nq < nx"
  then have "nx * nq \<le> (a div nq) * nq"
    using assms(2) by (simp add: mult_right_mono)
  moreover have "a = (a div nq) * nq + a mod nq"
    by simp
  moreover have "0 \<le> a mod nq"
    using assms(2) by simp
  ultimately show False
    using assms(1) by linarith
qed

lemma xy_index_range:
  assumes "0 < nx" "0 < nq"
  shows "0 \<le> (e mod (nx * nq)) div nq \<and> (e mod (nx * nq)) div nq < (nx :: int)"
proof -
  have pos: "0 < nx * nq" using assms by simp
  have "0 \<le> e mod (nx * nq)" "e mod (nx * nq) < nx * nq"
    using pos by simp_all
  then show ?thesis
    using assms(2) by (simp add: pos_imp_zdiv_nonneg_iff div_less_of_less_mult)
qed

lemma bridge_reset_configs_ok:
  assumes "xy_configs \<noteq> []" "quat_configs \<noteq> []"
  shows "bridge_reset_configs xy_configs quat_configs options =
     Inr (xy_configs ! nat ((episode_id_of options
              mod (int (length xy_configs) * int (length quat_configs)))
              div int (length quat_configs)),
          quat_configs ! nat (episode_id_of options mod int (length quat_configs)))"
proof -
  have nx: "0 < int (length xy_configs)" and nq: "0 < int (length quat_configs)"
    using assms by simp_all
  note xr = xy_index_range [OF nx nq, of "episode_id_of options"]
  note qr = quat_index_range [OF nq, of "episode_id_of options"]
  show ?thesis
    using nx nq xr qr
    by (simp add: bridge_reset_configs_def Let_def py_mod_def py_floordiv_def py_getitem_def)
qed

lemma mod_mod_factor:
  "(e mod (nx * nq)) mod nq = e mod (nq :: int)"
  by (simp add: mod_mod_cancel)

lemma bridge_reset_configs_depends:
  "bridge_reset_configs xy_configs quat_configs options =
     (let m = int (length xy_configs) * int (length quat_configs);
          r = episode_id_of options mod m
      in if m = 0 then Inl ZeroDivisionError
         else Inr (xy_configs ! nat (r div int (length quat_configs)),
                   quat_configs ! nat (r mod int (length quat_configs))))"
proof (cases "xy_configs = [] \<or> quat_configs = []")
  case True
  then show ?thesis
    by (auto simp: bridge_reset_configs_def Let_def py_mod_def)
next
  case False
  then show ?thesis
    by (simp add: bridge_reset_configs_ok Let_def mod_mod_factor)
qed

text \<open>
  C10.  With both lists of configurations non-empty, the reset raises nothing and takes
  the quaternion configuration at index \<^verbatim>\<open>episode_id mod len(quat_configs)\<close> and the xy
  configuration at index
  \<^verbatim>\<open>(episode_id mod (len(xy_configs) * len(quat_configs))) div len(quat_configs)\<close>, both
  within the lists.  Two resets whose episode ids are congruent modulo
  \<^verbatim>\<open>len(xy_configs) * len(quat_configs)\<close> have the same result.  The episode id is 0 when
  the options, the \<^verbatim>\<open>obj_init_options\<close> in them or the \<^verbatim>\<open>episode_id\<close> in those is absent.
\<close>

theorem bridge_reset_configs_index:
  "(xy_configs \<noteq> [] \<and> quat_configs \<noteq> [] \<longrightarrow>
      nat ((episode_id_of options mod (int (length xy_configs) * int (length quat_configs)))
             div int (length quat_configs)) < length xy_configs \<and>
      nat (episode_id_of options mod int (length quat_configs)) < length quat_configs \<and>
      bridge_reset_configs xy_configs quat_configs options =
        Inr (xy_configs ! nat ((episode_id_of options
                 mod (int (length xy_configs) * int (length quat_configs)))
                 div int (length quat_configs)),
             quat_configs ! nat (episode_id_of options mod int (length quat_configs)))) \<and>
   (episode_id_of options mod (int (length xy_configs) * int (length quat_configs)) =
      episode_id_of options' mod (int (length xy_configs) * int (length quat_configs)) \<longrightarrow>
      bridge_reset_configs xy_configs quat_configs options =
        bridge_reset_configs xy_configs quat_configs options') \<and>
   episode_id_of None = 0 \<and>
   episode_id_of (Some Map.empty) = 0 \<and>
   episode_id_of (Some [''obj_init_options'' \<mapsto> Map.empty]) = 0 \<and>
   episode_id_of (Some [''obj_init_options'' \<mapsto> [''episode_id'' \<mapsto> e]]) = e"
proof -
  have idx: "nat ((episode_id_of options mod (int (length xy_configs) * int (length quat_configs)))
             div int (length quat_configs)) < length xy_configs \<and>
      nat (episode_id_of options mod int (length quat_configs)) < length quat_configs"
    if "xy_configs \<noteq> []" "quat_configs \<noteq> []"
  proof -
    have nx: "0 < int (length xy_configs)" and nq: "0 < int (length quat_configs)"
      using that by simp_all
    show ?thesis
      using xy_index_range [OF nx nq, of "episode_id_of options"]
        quat_index_range [OF nq, of "episode_id_of options"]
      by linarith
  qed
  have same: "bridge_reset_configs xy_configs quat_configs options =
        bridge_reset_configs xy_configs quat_configs options'"
    if "episode_id_of options mod (int (length xy_configs) * int (length quat_configs)) =
      episode_id_of options' mod (int (length xy_configs) * int (length quat_configs))"
    using that by (simp add: bridge_reset_configs_depends Let_def)
  have defaults: "episode_id_of None = 0" "episode_id_of (Some Map.empty) = 0"
    "episode_id_of (Some [''obj_init_options'' \<mapsto> Map.empty]) = 0"
    "episode_id_of (Some [''obj_init_options'' \<mapsto> [''episode_id'' \<mapsto> e]]) = e"
    by (simp_all add: episode_id_of_def)
  show ?thesis
    using idx same defaults bridge_reset_configs_ok by blast
qed

lemma episode_id_options_of: "episode_id_of (options_of e) = e"
  by (simp add: options_of_def episode_id_of_def)

text \<open>
  Three xy configurations and two quaternion configurations: the episodes 7 and 13 take
  the same pair, the episode -1 takes the last of each, and no options take the first.
\<close>

theorem bridge_reset_configs_index_witness:
  "bridge_reset_configs [''xy0'', ''xy1'', ''xy2''] [''q0'', ''q1''] (options_of 7) =
     Inr (''xy0'', ''q1'') \<and>
   bridge_reset_configs [''xy0'', ''xy1'', ''xy2''] [''q0'', ''q1''] (options_of 13) =
     Inr (''xy0'', ''q1'') \<and>
   bridge_reset_configs [''xy0'', ''xy1'', ''xy2''] [''q0'', ''q1''] (options_of (- 1)) =
     Inr (''xy2'', ''q1'') \<and>
   bridge_reset_configs [''xy0'', ''xy1'', ''xy2''] [''q0'', ''q1''] None =
     Inr (''xy0'', ''q0'')"
proof -
  note at_7 = bridge_reset_configs_index
    [of "[''xy0'', ''xy1'', ''xy2'']" "[''q0'', ''q1'']" "options_of 7" "options_of 13" 0]
  note at_minus_1 = bridge_reset_configs_index
    [of "[''xy0'', ''xy1'', ''xy2'']" "[''q0'', ''q1'']" "options_of (- 1)" None 0]
  note at_none = bridge_reset_configs_index
    [of "[''xy0'', ''xy1'', ''xy2'']" "[''q0'', ''q1'']" None None 0]
  have r7: "bridge_reset_configs [''xy0'', ''xy1'', ''xy2''] [''q0'', ''q1''] (options_of 7) =
      Inr (''xy0'', ''q1'')"
    using at_7 by (simp add: episode_id_options_of)
  have "bridge_reset_configs [''xy0'', ''xy1'', ''xy2''] [''q0'', ''q1''] (options_of 13) =
      bridge_reset_configs [''xy0'', ''xy1'', ''xy2''] [''q0'', ''q1''] (options_of 7)"
    using at_7 by (auto simp: episode_id_options_of)
  then have r13: "bridge_reset_configs [''xy0'', ''xy1'', ''xy2''] [''q0'', ''q1''] (options_of 13) =
      Inr (''xy0'', ''q1'')"
    using r7 by simp
  have rm: "bridge_reset_configs [''xy0'', ''xy1'', ''xy2''] [''q0'', ''q1''] (options_of (- 1)) =
      Inr (''xy2'', ''q1'')"
    using at_minus_1 by (simp add: episode_id_options_of eval_nat_numeral)
  have e0: "episode_id_of None = 0"
    using at_none by blast
  have rn: "bridge_reset_configs [''xy0'', ''xy1'', ''xy2''] [''q0'', ''q1''] None =
      Inr (''xy0'', ''q0'')"
    using at_none by (simp add: e0)
  show ?thesis
    using r7 r13 rm rn by blast
qed


end
